theory Spec2Isabelle
  imports Complex_Main
begin

section \<open>Numbers, clock values and log records\<close>

text \<open>
  The daily profit manager of \<^verbatim>\<open>src/legacy/daily_profit_manager.py\<close> computes with Python
  floats. They are idealised here as exact rationals: addition, subtraction, multiplication,
  division and comparison are the exact ones, and \<^verbatim>\<open>round(x, n)\<close> rounds the exact value half to
  even. Python integers are \<open>int\<close>.
\<close>

definition round_half_even :: "rat \<Rightarrow> int" where
  "round_half_even x =
     (let f = \<lfloor>x\<rfloor>; d = x - of_int f
      in if d < 1 / 2 then f
         else if 1 / 2 < d then f + 1
         else if even f then f else f + 1)"

definition py_round :: "rat \<Rightarrow> nat \<Rightarrow> rat" where
  \<comment> \<open>\<^verbatim>\<open>round(x, ndigits)\<close>\<close>
  "py_round x ndigits = of_int (round_half_even (x * 10 ^ ndigits)) / 10 ^ ndigits"

definition py_int :: "rat \<Rightarrow> int" where
  \<comment> \<open>\<^verbatim>\<open>int(x)\<close> on a float: truncation toward zero\<close>
  "py_int x = (if 0 \<le> x then \<lfloor>x\<rfloor> else \<lceil>x\<rceil>)"

text \<open>
  A \<^verbatim>\<open>date\<close> is its proleptic Gregorian ordinal (\<^verbatim>\<open>date.toordinal()\<close>); a naive
  \<^verbatim>\<open>datetime\<close> is a date with a time of day. \<^verbatim>\<open>date.weekday()\<close> is
  \<^verbatim>\<open>(toordinal() + 6) % 7\<close>, Monday being 0 and Friday 4.
\<close>

type_synonym date = int

record datetime =
  day :: date
  hour :: int
  minute :: int
  second :: int
  microsecond :: int

definition valid_datetime :: "datetime \<Rightarrow> bool" where
  "valid_datetime t \<longleftrightarrow>
     0 \<le> hour t \<and> hour t < 24 \<and> 0 \<le> minute t \<and> minute t < 60 \<and>
     0 \<le> second t \<and> second t < 60 \<and> 0 \<le> microsecond t \<and> microsecond t < 1000000"

definition date_of :: "datetime \<Rightarrow> date" where
  \<comment> \<open>\<^verbatim>\<open>t.date()\<close>\<close>
  "date_of t = day t"

definition weekday :: "datetime \<Rightarrow> int" where
  "weekday t = (day t + 6) mod 7"

definition time_min :: "int \<times> int \<times> int \<times> int" where
  "time_min = (0, 0, 0, 0)"

definition time_max :: "int \<times> int \<times> int \<times> int" where
  "time_max = (23, 59, 59, 999999)"

definition combine :: "date \<Rightarrow> int \<times> int \<times> int \<times> int \<Rightarrow> datetime" where
  \<comment> \<open>\<^verbatim>\<open>datetime.combine(d, t)\<close>\<close>
  "combine d t =
     (case t of (h, mi, s, us) \<Rightarrow>
        \<lparr>day = d, hour = h, minute = mi, second = s, microsecond = us\<rparr>)"

definition total_seconds :: "datetime \<Rightarrow> datetime \<Rightarrow> rat" where
  \<comment> \<open>\<^verbatim>\<open>(a - b).total_seconds()\<close>\<close>
  "total_seconds a b =
     of_int ((day a - day b) * 86400 + (hour a - hour b) * 3600
             + (minute a - minute b) * 60 + (second a - second b))
     + of_int (microsecond a - microsecond b) / 1000000"

datatype py_exception = ValueError | KeyError | OSError | OtherError string

text \<open>
  The f-strings handed to the logger, to the caller as a reason and to the report are kept as
  structured values: the constructor is the fixed text, the arguments are the interpolated
  values before formatting.
\<close>

datatype level = DEBUG | INFO | ERROR

datatype message =
    Initialized
  | InitTarget rat
  | InitFee rat
  | InitPacing string bool
  | InitNormalInterval rat
  | InitAggressiveInterval rat
  | InitAdaptiveThreshold rat
  | ErrorCalculatingStats py_exception
  | DailyTargetReached
  | TargetGross rat
  | TargetFees rat
  | TargetNet rat
  | TradeRecorded rat rat rat
  | MidnightReset
  | StateSaved string
  | ErrorSavingState py_exception
  | NoSavedState
  | StateLoaded rat int
  | DifferentDate
  | ErrorLoadingState py_exception
  | TradeOpened int string rat
  | TradeClosed int string rat

datatype reason =
    TargetReachedPaused rat
  | FridayCloses int
  | TradePacingWait int string
  | TradingAllowed

section \<open>The manager, its configuration and the trade history\<close>

text \<open>
  The manager is the object's attributes, the logger's output among them. Every operation
  that reads the clock takes the clock value \<open>now\<close> as a parameter and returns the manager
  it leaves; the \<^verbatim>\<open>datetime.now()\<close> calls made within one operation read that one value.
\<close>

record profit_config =
  cfg_daily_profit_target :: rat
  cfg_broker_fee_per_full_lot :: rat
  cfg_enable_trade_pacing :: bool
  cfg_pacing_mode :: string
  cfg_min_trade_interval_normal :: rat
  cfg_min_trade_interval_aggressive :: rat
  cfg_friday_close_hour :: int
  cfg_adaptive_pacing_threshold :: rat
  cfg_estimated_minutes_per_trade :: rat
  cfg_daily_profit_state_file :: string

record manager =
  magic_number :: int
  symbol :: string
  logger :: "(level \<times> message) list"
  daily_target_gross :: rat
  broker_fee_per_lot :: rat
  enable_pacing :: bool
  pacing_mode :: string
  daily_target_reached :: bool
  last_reset_date :: date
  trades_today :: int
  total_fees_today :: rat
  gross_profit_today :: rat
  net_profit_today :: rat
  min_trade_interval_normal :: rat
  min_trade_interval_aggressive :: rat
  last_trade_time :: "datetime option"
  friday_close_hour :: int
  adaptive_threshold :: rat
  estimated_minutes_per_trade :: rat
  state_file :: string

definition emit :: "level \<Rightarrow> message \<Rightarrow> manager \<Rightarrow> manager" where
  \<comment> \<open>\<^verbatim>\<open>self.logger.debug/info/error(...)\<close>: the record is appended to the logger's output\<close>
  "emit l msg self = self\<lparr>logger := logger self @ [(l, msg)]\<rparr>"

definition init :: "profit_config \<Rightarrow> int \<Rightarrow> string \<Rightarrow> datetime \<Rightarrow> manager" where
  \<comment> \<open>\<^verbatim>\<open>__init__\<close>, the configuration with its defaults already filled in; \<open>now\<close> is the clock\<close>
  "init config magic symbol_name now =
     \<lparr>magic_number = magic,
      symbol = symbol_name,
      logger =
        [(INFO, Initialized),
         (INFO, InitTarget (cfg_daily_profit_target config)),
         (INFO, InitFee (cfg_broker_fee_per_full_lot config)),
         (INFO, InitPacing (cfg_pacing_mode config) (cfg_enable_trade_pacing config)),
         (INFO, InitNormalInterval (cfg_min_trade_interval_normal config)),
         (INFO, InitAggressiveInterval (cfg_min_trade_interval_aggressive config)),
         (INFO, InitAdaptiveThreshold (cfg_adaptive_pacing_threshold config))],
      daily_target_gross = cfg_daily_profit_target config,
      broker_fee_per_lot = cfg_broker_fee_per_full_lot config,
      enable_pacing = cfg_enable_trade_pacing config,
      pacing_mode = cfg_pacing_mode config,
      daily_target_reached = False,
      last_reset_date = date_of now,
      trades_today = 0,
      total_fees_today = 0,
      gross_profit_today = 0,
      net_profit_today = 0,
      min_trade_interval_normal = cfg_min_trade_interval_normal config,
      min_trade_interval_aggressive = cfg_min_trade_interval_aggressive config,
      last_trade_time = None,
      friday_close_hour = cfg_friday_close_hour config,
      adaptive_threshold = cfg_adaptive_pacing_threshold config,
      estimated_minutes_per_trade = cfg_estimated_minutes_per_trade config,
      state_file = cfg_daily_profit_state_file config\<rparr>"

definition calculate_trade_fee :: "manager \<Rightarrow> rat \<Rightarrow> rat" where
  "calculate_trade_fee self lot_size =
     (let fee = lot_size * broker_fee_per_lot self in py_round fee 2)"


text \<open>
  A deal of the MetaTrader history, with the attributes the manager reads. The history query
  \<^verbatim>\<open>mt5.history_deals_get(start, end)\<close> is a parameter of every operation that reaches it: it
  raises, returns \<^verbatim>\<open>None\<close>, or returns the deals of the range.
\<close>

record deal =
  deal_magic :: int
  deal_symbol :: string
  deal_entry :: int
  deal_profit :: rat
  deal_volume :: rat

datatype query_result = Raises py_exception | ReturnsNone | Returns "deal list"

type_synonym history_source = "datetime \<Rightarrow> datetime \<Rightarrow> query_result"

text \<open>
  The estimated time of arrival \<^verbatim>\<open>datetime.now() + timedelta(minutes=m)\<close> is kept as the pair
  of the clock value and the minutes added.
\<close>

datatype eta = After datetime rat

record stats =
  trades_count :: int
  gross_profit :: rat
  total_fees :: rat
  net_profit :: rat
  target_percentage :: rat
  average_profit_per_trade :: rat
  estimated_target_eta :: "eta option"

definition zero_stats :: stats where
  "zero_stats =
     \<lparr>trades_count = 0, gross_profit = 0, total_fees = 0, net_profit = 0,
      target_percentage = 0, average_profit_per_trade = 0, estimated_target_eta = None\<rparr>"

definition is_relevant :: "manager \<Rightarrow> deal \<Rightarrow> bool" where
  \<comment> \<open>the filter of the list comprehension; \<^verbatim>\<open>entry == 1\<close> is a closing deal\<close>
  "is_relevant self d \<longleftrightarrow>
     deal_magic d = magic_number self \<and> deal_symbol d = symbol self \<and> deal_entry d = 1"

definition get_daily_stats :: "manager \<Rightarrow> datetime \<Rightarrow> history_source \<Rightarrow> stats \<times> manager" where
  "get_daily_stats self now history_deals_get =
     (let today = date_of now;
          today_start = combine today time_min;
          today_end = combine today time_max
      in case history_deals_get today_start today_end of
           Raises e \<Rightarrow> (zero_stats, emit ERROR (ErrorCalculatingStats e) self)
         | ReturnsNone \<Rightarrow> (zero_stats, self)
         | Returns deals \<Rightarrow>
             if length deals = 0 then (zero_stats, self)
             else
               let relevant_deals = filter (is_relevant self) deals
               in if relevant_deals = [] then (zero_stats, self)
                  else
                    let n_trades = int (length relevant_deals);
                        gross_value = sum_list (map deal_profit relevant_deals);
                        fees_value = sum_list (map (\<lambda>d. calculate_trade_fee self (deal_volume d))
                                             relevant_deals);
                        net_value = gross_value - fees_value;
                        percentage = (if daily_target_gross self > 0
                                      then (gross_value / daily_target_gross self) * 100 else 0);
                        avg_profit = (if n_trades > 0 then gross_value / of_int n_trades else 0);
                        estimated_eta =
                          (if avg_profit > 0 \<and> gross_value < daily_target_gross self
                           then let remaining_profit = daily_target_gross self - gross_value;
                                    trades_needed = remaining_profit / avg_profit;
                                    minutes_needed = trades_needed * estimated_minutes_per_trade self
                                in Some (After now minutes_needed)
                           else None)
                    in (\<lparr>trades_count = n_trades,
                         gross_profit = py_round gross_value 2,
                         total_fees = py_round fees_value 2,
                         net_profit = py_round net_value 2,
                         target_percentage = py_round percentage 1,
                         average_profit_per_trade = py_round avg_profit 2,
                         estimated_target_eta = estimated_eta\<rparr>,
                        self\<lparr>trades_today := n_trades,
                             gross_profit_today := gross_value,
                             total_fees_today := fees_value,
                             net_profit_today := net_value\<rparr>))"

definition check_target_reached ::
  "manager \<Rightarrow> datetime \<Rightarrow> history_source \<Rightarrow> (bool \<times> stats) \<times> manager" where
  "check_target_reached self now history_deals_get =
     (case get_daily_stats self now history_deals_get of
        (st, s1) \<Rightarrow>
          let target_reached = (gross_profit st \<ge> daily_target_gross s1)
          in if target_reached \<and> \<not> daily_target_reached s1
             then ((target_reached, st),
                   (emit INFO (TargetNet (net_profit st))
                     (emit INFO (TargetFees (total_fees st))
                       (emit INFO (TargetGross (gross_profit st))
                         (emit INFO DailyTargetReached s1))))\<lparr>daily_target_reached := True\<rparr>)
             else ((target_reached, st), s1))"

definition reset_daily_state :: "manager \<Rightarrow> datetime \<Rightarrow> manager" where
  "reset_daily_state self now =
     (emit INFO MidnightReset self)
       \<lparr>daily_target_reached := False,
        last_reset_date := date_of now,
        trades_today := 0,
        total_fees_today := 0,
        gross_profit_today := 0,
        net_profit_today := 0,
        last_trade_time := None\<rparr>"

text \<open>
  The interval that \<^verbatim>\<open>should_allow_trading\<close> requires between two trades (its lines that
  assign \<^verbatim>\<open>required_interval\<close>): a pacing mode that is none of the three names keeps the
  normal interval, and the adaptive mode refreshes the statistics, which may change the
  manager.
\<close>

definition required_interval :: "manager \<Rightarrow> datetime \<Rightarrow> history_source \<Rightarrow> rat \<times> manager" where
  "required_interval self now history_deals_get =
     (if pacing_mode self = ''aggressive'' then (min_trade_interval_aggressive self, self)
      else if pacing_mode self = ''gentle'' then (min_trade_interval_normal self, self)
      else if pacing_mode self = ''adaptive'' then
        (case get_daily_stats self now history_deals_get of
           (st, s1) \<Rightarrow>
             let hours_elapsed = of_int (hour now) + of_int (minute now) / 60;
                 expected_progress = (hours_elapsed / 24) * 100;
                 actual_progress = target_percentage st
             in if actual_progress < expected_progress * adaptive_threshold s1
                then (min_trade_interval_aggressive s1, s1)
                else (min_trade_interval_normal s1, s1))
      else (min_trade_interval_normal self, self))"

definition should_allow_trading ::
  "manager \<Rightarrow> datetime \<Rightarrow> history_source \<Rightarrow> (bool \<times> reason) \<times> manager" where
  "should_allow_trading self now history_deals_get =
     (let s1 = (if date_of now > last_reset_date self then reset_daily_state self now else self)
      in if daily_target_reached s1
         then ((False, TargetReachedPaused (gross_profit_today s1)), s1)
         else if weekday now = 4 \<and> hour now \<ge> friday_close_hour s1
         then ((False, FridayCloses (friday_close_hour s1)), s1)
         else if enable_pacing s1
         then (case last_trade_time s1 of
                 None \<Rightarrow> ((True, TradingAllowed), s1)
               | Some last_time \<Rightarrow>
                   let time_since_last = total_seconds now last_time
                   in (case required_interval s1 now history_deals_get of
                         (required, s2) \<Rightarrow>
                           if time_since_last < required
                           then let wait_time = py_int (required - time_since_last)
                                in ((False, TradePacingWait wait_time (pacing_mode s2)), s2)
                           else ((True, TradingAllowed), s2)))
         else ((True, TradingAllowed), s1))"

definition datetime_less :: "datetime \<Rightarrow> datetime \<Rightarrow> bool" where
  \<comment> \<open>the order of naive datetimes: by date, then by time of day\<close>
  "datetime_less a b \<longleftrightarrow>
     day a < day b \<or> (day a = day b \<and>
       (hour a < hour b \<or> (hour a = hour b \<and>
         (minute a < minute b \<or> (minute a = minute b \<and>
           (second a < second b \<or> (second a = second b \<and> microsecond a < microsecond b)))))))"

definition get_friday_trading_hours_remaining ::
  "manager \<Rightarrow> datetime \<Rightarrow> py_exception + rat option" where
  \<comment> \<open>\<^verbatim>\<open>now.replace(hour=h, ...)\<close> raises ValueError unless \<open>h\<close> is in \<open>0..23\<close>\<close>
  "get_friday_trading_hours_remaining self now =
     (if weekday now \<noteq> 4 then Inr None
      else if friday_close_hour self < 0 \<or> 23 < friday_close_hour self then Inl ValueError
      else
        let friday_close = now\<lparr>hour := friday_close_hour self, minute := 0, second := 0,
                               microsecond := 0\<rparr>
        in if \<not> datetime_less now friday_close then Inr (Some 0)
           else let hours_remaining = total_seconds friday_close now / 3600
                in Inr (Some (py_round hours_remaining 1)))"

definition record_trade :: "manager \<Rightarrow> rat \<Rightarrow> rat \<Rightarrow> datetime \<Rightarrow> manager" where
  "record_trade self lot_size profit now =
     (let s1 = self\<lparr>last_trade_time := Some now\<rparr>;
          s2 = s1\<lparr>trades_today := trades_today s1 + 1\<rparr>;
          fee = calculate_trade_fee s2 lot_size;
          s3 = s2\<lparr>gross_profit_today := gross_profit_today s2 + profit\<rparr>;
          s4 = s3\<lparr>total_fees_today := total_fees_today s3 + fee\<rparr>;
          s5 = s4\<lparr>net_profit_today := gross_profit_today s4 - total_fees_today s4\<rparr>
      in emit INFO (TradeRecorded profit fee (net_profit_today s5)) s5)"

section \<open>Progress reports\<close>

datatype pace = OnTrack | SlightlyBehind | BehindSchedule

datatype report_line =
    ReportHeader
  | ReportRule
  | ReportGross rat
  | ReportFees rat int
  | ReportNet rat rat
  | ReportProgress rat
  | ReportTime int int int int
  | ReportPace pace
  | ReportFriday rat int
  | ReportEta eta
  | CompactNet rat rat rat

definition get_progress_report ::
  "manager \<Rightarrow> datetime \<Rightarrow> history_source \<Rightarrow> (py_exception + report_line list) \<times> manager" where
  "get_progress_report self now history_deals_get =
     (case get_daily_stats self now history_deals_get of
        (st, s1) \<Rightarrow>
          let today_start = now\<lparr>hour := 0, minute := 0, second := 0, microsecond := 0\<rparr>;
              elapsed = total_seconds now today_start;
              hours_elapsed = py_int (of_int \<lfloor>elapsed / 3600\<rfloor>);
              minutes_elapsed =
                py_int (of_int \<lfloor>(elapsed - 3600 * of_int \<lfloor>elapsed / 3600\<rfloor>) / 60\<rfloor>);
              report =
                [ReportHeader, ReportRule,
                 ReportGross (gross_profit st),
                 ReportFees (total_fees st) (trades_count st),
                 ReportNet (net_profit st) (daily_target_gross s1),
                 ReportProgress (target_percentage st),
                 ReportTime (hour now) (minute now) hours_elapsed minutes_elapsed];
              report1 =
                (if trades_count st > 0
                 then let expected_progress = (of_int hours_elapsed / 24) * 100;
                          pace = (if target_percentage st \<ge> expected_progress then OnTrack
                                  else if target_percentage st
                                            \<ge> expected_progress * adaptive_threshold s1
                                  then SlightlyBehind
                                  else BehindSchedule)
                      in report @ [ReportPace pace]
                 else report)
          in (case get_friday_trading_hours_remaining s1 now of
                Inl e \<Rightarrow> (Inl e, s1)
              | Inr friday_hours \<Rightarrow>
                  let report2 =
                        (case friday_hours of
                           None \<Rightarrow> report1
                         | Some h \<Rightarrow> report1 @ [ReportFriday h (friday_close_hour s1)]);
                      report3 =
                        (case estimated_target_eta st of
                           None \<Rightarrow> report2
                         | Some e \<Rightarrow> report2 @ [ReportEta e])
                  in (Inr (report3 @ [ReportRule]), s1)))"

definition get_compact_progress ::
  "manager \<Rightarrow> datetime \<Rightarrow> history_source \<Rightarrow> report_line \<times> manager" where
  "get_compact_progress self now history_deals_get =
     (case get_daily_stats self now history_deals_get of
        (st, s1) \<Rightarrow>
          (CompactNet (net_profit st) (daily_target_gross s1) (target_percentage st), s1))"

section \<open>The persisted snapshot\<close>

text \<open>
  The state file holds a JSON object. A key read through \<^verbatim>\<open>state.get(key, default)\<close> is an
  option (\<open>None\<close>: the key is absent and the default is taken). The two ISO-8601 strings are
  either missing (for \<^verbatim>\<open>last_trade_time\<close> also \<^verbatim>\<open>null\<close> or the empty string, which are
  falsy), or not parsed by \<^verbatim>\<open>datetime.fromisoformat\<close>, or the value they denote.
  A file that cannot be opened or is not JSON is \<open>Corrupt\<close>.
\<close>

datatype 'a iso_field = Missing | Malformed | Iso 'a

record snapshot =
  date_field :: "date iso_field"
  target_reached_field :: "bool option"
  trades_today_field :: "int option"
  gross_profit_field :: "rat option"
  total_fees_field :: "rat option"
  net_profit_field :: "rat option"
  last_trade_time_field :: "datetime iso_field"

datatype file_content = Corrupt | Json snapshot

type_synonym file_store = "string \<rightharpoonup> file_content"

text \<open>
  What happens to a write: it succeeds, or an exception is raised before the file is opened
  (creating the directory or opening fails), or after it was truncated.
\<close>

datatype write_outcome = WriteOk | FailsBeforeOpen py_exception | FailsWhileWriting py_exception

definition snapshot_of :: "manager \<Rightarrow> snapshot" where
  \<comment> \<open>the dictionary \<^verbatim>\<open>state\<close> built by \<^verbatim>\<open>save_state\<close>\<close>
  "snapshot_of self =
     \<lparr>date_field = Iso (last_reset_date self),
      target_reached_field = Some (daily_target_reached self),
      trades_today_field = Some (trades_today self),
      gross_profit_field = Some (gross_profit_today self),
      total_fees_field = Some (total_fees_today self),
      net_profit_field = Some (net_profit_today self),
      last_trade_time_field =
        (case last_trade_time self of None \<Rightarrow> Missing | Some t \<Rightarrow> Iso t)\<rparr>"

definition save_state :: "manager \<Rightarrow> write_outcome \<Rightarrow> file_store \<Rightarrow> manager \<times> file_store" where
  "save_state self io files =
     (let state = snapshot_of self
      in case io of
           WriteOk \<Rightarrow>
             (emit DEBUG (StateSaved (state_file self)) self,
              files(state_file self \<mapsto> Json state))
         | FailsBeforeOpen e \<Rightarrow> (emit ERROR (ErrorSavingState e) self, files)
         | FailsWhileWriting e \<Rightarrow>
             (emit ERROR (ErrorSavingState e) self, files(state_file self \<mapsto> Corrupt)))"

definition get_or :: "'a option \<Rightarrow> 'a \<Rightarrow> 'a" where
  \<comment> \<open>\<^verbatim>\<open>state.get(key, default)\<close>\<close>
  "get_or v d = (case v of None \<Rightarrow> d | Some x \<Rightarrow> x)"

definition load_state :: "manager \<Rightarrow> datetime \<Rightarrow> file_store \<Rightarrow> manager" where
  "load_state self now files =
     (case files (state_file self) of
        None \<Rightarrow> emit DEBUG NoSavedState self
      | Some Corrupt \<Rightarrow> emit ERROR (ErrorLoadingState OSError) self
      | Some (Json state) \<Rightarrow>
          (case date_field state of
             Missing \<Rightarrow> emit ERROR (ErrorLoadingState KeyError) self
           | Malformed \<Rightarrow> emit ERROR (ErrorLoadingState ValueError) self
           | Iso saved_date \<Rightarrow>
               if saved_date = date_of now
               then
                 let s1 = self\<lparr>daily_target_reached := get_or (target_reached_field state) False,
                               trades_today := get_or (trades_today_field state) 0,
                               gross_profit_today := get_or (gross_profit_field state) 0,
                               total_fees_today := get_or (total_fees_field state) 0,
                               net_profit_today := get_or (net_profit_field state) 0\<rparr>
                 in (case last_trade_time_field state of
                       Missing \<Rightarrow>
                         emit INFO (StateLoaded (net_profit_today s1) (trades_today s1)) s1
                     | Malformed \<Rightarrow> emit ERROR (ErrorLoadingState ValueError) s1
                     | Iso t \<Rightarrow>
                         let s2 = s1\<lparr>last_trade_time := Some t\<rparr>
                         in emit INFO (StateLoaded (net_profit_today s2) (trades_today s2)) s2)
               else emit INFO DifferentDate self))"

definition should_pause_trading :: "manager \<Rightarrow> datetime \<Rightarrow> history_source \<Rightarrow> bool \<times> manager" where
  "should_pause_trading self now history_deals_get =
     (case check_target_reached self now history_deals_get of
        ((target_reached, _), s1) \<Rightarrow> (target_reached, s1))"

definition update ::
  "manager \<Rightarrow> datetime \<Rightarrow> write_outcome \<Rightarrow> file_store \<Rightarrow> manager \<times> file_store" where
  "update self now io files =
     (let s1 = (if date_of now > last_reset_date self then reset_daily_state self now else self)
      in if trades_today s1 > 0 then save_state s1 io files else (s1, files))"

definition track_trade_open :: "manager \<Rightarrow> int \<Rightarrow> string \<Rightarrow> rat \<Rightarrow> manager" where
  "track_trade_open self ticket direction lot_size =
     emit DEBUG (TradeOpened ticket direction lot_size) self"

definition track_trade_close ::
  "manager \<Rightarrow> int \<Rightarrow> rat \<Rightarrow> string \<Rightarrow> rat \<Rightarrow> datetime \<Rightarrow> manager" where
  \<comment> \<open>the entry price, the exit price and the close reason are not used\<close>
  "track_trade_close self ticket profit direction lot_size now =
     emit INFO (TradeClosed ticket direction profit) (record_trade self lot_size profit now)"

section \<open>Sequences of calls\<close>

text \<open>
  The check that \<^verbatim>\<open>should_allow_trading\<close> and \<^verbatim>\<open>update\<close> both start with: the state after
  it is the reset state when the clock's date is past the stored reset date, and the state
  itself otherwise.
\<close>

definition midnight_rollover :: "manager \<Rightarrow> datetime \<Rightarrow> manager" where
  "midnight_rollover self now =
     (if date_of now > last_reset_date self then reset_daily_state self now else self)"

definition counters ::
  "manager \<Rightarrow> bool \<times> int \<times> rat \<times> rat \<times> rat \<times> datetime option" where
  "counters self =
     (daily_target_reached self, trades_today self, gross_profit_today self,
      total_fees_today self, net_profit_today self, last_trade_time self)"

text \<open>A sequence of \<^verbatim>\<open>record_trade(lot_size, profit)\<close> calls, each with its clock value.\<close>

fun record_trades :: "manager \<Rightarrow> (rat \<times> rat \<times> datetime) list \<Rightarrow> manager" where
  "record_trades self [] = self"
| "record_trades self ((lot_size, profit, now) # rest) =
     record_trades (record_trade self lot_size profit now) rest"

text \<open>
  The calls a host makes on the manager, each at a clock value and with the trade history of
  that moment. \<^verbatim>\<open>calculate_trade_fee\<close> and \<^verbatim>\<open>get_friday_trading_hours_remaining\<close> change
  nothing and are left out. The state of the system is the manager with the file store.
\<close>

datatype call =
    GetDailyStats
  | CheckTargetReached
  | ShouldAllowTrading
  | ShouldPauseTrading
  | RecordTrade rat rat
  | ResetDailyState
  | GetProgressReport
  | GetCompactProgress
  | SaveState write_outcome
  | LoadState
  | Update write_outcome
  | TrackTradeOpen int string rat
  | TrackTradeClose int rat string rat

fun perform ::
  "manager \<times> file_store \<Rightarrow> call \<times> datetime \<times> history_source \<Rightarrow> manager \<times> file_store" where
  "perform (self, files) (GetDailyStats, now, h) = (snd (get_daily_stats self now h), files)"
| "perform (self, files) (CheckTargetReached, now, h) =
     (snd (check_target_reached self now h), files)"
| "perform (self, files) (ShouldAllowTrading, now, h) =
     (snd (should_allow_trading self now h), files)"
| "perform (self, files) (ShouldPauseTrading, now, h) =
     (snd (should_pause_trading self now h), files)"
| "perform (self, files) (RecordTrade lot_size profit, now, h) =
     (record_trade self lot_size profit now, files)"
| "perform (self, files) (ResetDailyState, now, h) = (reset_daily_state self now, files)"
| "perform (self, files) (GetProgressReport, now, h) =
     (snd (get_progress_report self now h), files)"
| "perform (self, files) (GetCompactProgress, now, h) =
     (snd (get_compact_progress self now h), files)"
| "perform (self, files) (SaveState io, now, h) = save_state self io files"
| "perform (self, files) (LoadState, now, h) = (load_state self now files, files)"
| "perform (self, files) (Update io, now, h) = update self now io files"
| "perform (self, files) (TrackTradeOpen ticket direction lot_size, now, h) =
     (track_trade_open self ticket direction lot_size, files)"
| "perform (self, files) (TrackTradeClose ticket profit direction lot_size, now, h) =
     (track_trade_close self ticket profit direction lot_size now, files)"

definition run ::
  "manager \<times> file_store \<Rightarrow> (call \<times> datetime \<times> history_source) list \<Rightarrow> manager \<times> file_store"
  where
  "run w calls = foldl perform w calls"

text \<open>
  The calls of the host loop: everything but \<^verbatim>\<open>load_state\<close>, which is for the start of
  the process, and a direct \<^verbatim>\<open>reset_daily_state\<close>.
\<close>

fun host_call :: "call \<Rightarrow> bool" where
  "host_call LoadState = False"
| "host_call ResetDailyState = False"
| "host_call _ = True"

fun checks_target :: "call \<Rightarrow> bool" where
  "checks_target CheckTargetReached = True"
| "checks_target ShouldPauseTrading = True"
| "checks_target _ = False"

definition same_day :: "date \<Rightarrow> (call \<times> datetime \<times> history_source) list \<Rightarrow> bool" where
  \<comment> \<open>host calls only, none of them at a clock value past the date \<open>d\<close>\<close>
  "same_day d calls \<longleftrightarrow>
     list_all (\<lambda>c. host_call (fst c) \<and> date_of (fst (snd c)) \<le> d) calls"

definition target_events :: "manager \<Rightarrow> nat" where
  \<comment> \<open>how often the target-reached event was logged\<close>
  "target_events self = count_list (logger self) (INFO, DailyTargetReached)"

section \<open>Concrete configurations, clock values and histories\<close>

text \<open>
  The configuration is the one of the defaults in \<^verbatim>\<open>__init__\<close>. Ordinal 738886 is Monday,
  1 January 2024; ordinal 738890 is Friday, 5 January 2024.
\<close>

definition default_config :: profit_config where
  "default_config =
     \<lparr>cfg_daily_profit_target = 175,
      cfg_broker_fee_per_full_lot = 551 / 100,
      cfg_enable_trade_pacing = True,
      cfg_pacing_mode = ''adaptive'',
      cfg_min_trade_interval_normal = 180,
      cfg_min_trade_interval_aggressive = 60,
      cfg_friday_close_hour = 22,
      cfg_adaptive_pacing_threshold = 7 / 10,
      cfg_estimated_minutes_per_trade = 30,
      cfg_daily_profit_state_file = ''logs/daily_profit_state.json''\<rparr>"

definition at_time :: "date \<Rightarrow> int \<Rightarrow> int \<Rightarrow> int \<Rightarrow> datetime" where
  "at_time d h mi s = \<lparr>day = d, hour = h, minute = mi, second = s, microsecond = 0\<rparr>"

definition monday_noon :: datetime where
  "monday_noon = at_time 738886 12 0 0"

definition tuesday_morning :: datetime where
  "tuesday_morning = at_time 738887 9 30 0"

definition friday_2159 :: datetime where
  "friday_2159 = at_time 738890 21 59 0"

definition friday_2205 :: datetime where
  "friday_2205 = at_time 738890 22 5 0"

definition default_manager :: manager where
  "default_manager = init default_config 79 ''XAUUSD'' monday_noon"

definition friday_manager :: manager where
  "friday_manager = init default_config 79 ''XAUUSD'' (at_time 738890 8 0 0)"

definition gentle_manager :: manager where
  \<comment> \<open>gentle pacing, a trade recorded on Monday at 12:00:00\<close>
  "gentle_manager =
     record_trade (default_manager\<lparr>pacing_mode := ''gentle''\<rparr>) (7 / 10) 20 monday_noon"

definition no_deals :: history_source where
  "no_deals = (\<lambda>start_time end_time. ReturnsNone)"

definition failing_history :: history_source where
  "failing_history = (\<lambda>start_time end_time. Raises (OtherError ''IPC timeout''))"

definition closing_deal :: deal where
  "closing_deal =
     \<lparr>deal_magic = 79, deal_symbol = ''XAUUSD'', deal_entry = 1,
      deal_profit = 200, deal_volume = 7 / 10\<rparr>"

definition one_deal :: history_source where
  "one_deal = (\<lambda>start_time end_time. Returns [closing_deal])"

definition reached_manager :: manager where
  \<comment> \<open>Monday's state once the target was reached\<close>
  "reached_manager =
     snd (check_target_reached
            (record_trade default_manager (7 / 10) 200 monday_noon) monday_noon one_deal)"

definition reached_files :: file_store where
  "reached_files = snd (save_state reached_manager WriteOk Map.empty)"

definition monday_calls :: "(call \<times> datetime \<times> history_source) list" where
  \<comment> \<open>a Monday of the host loop: a trade that passes the target, then checks and gating calls\<close>
  "monday_calls =
     [(RecordTrade (7 / 10) 200, monday_noon, one_deal),
      (CheckTargetReached, monday_noon, one_deal),
      (ShouldAllowTrading, at_time 738886 12 5 0, one_deal),
      (Update WriteOk, at_time 738886 12 6 0, one_deal),
      (ShouldPauseTrading, at_time 738886 12 10 0, one_deal),
      (GetProgressReport, at_time 738886 12 15 0, one_deal),
      (CheckTargetReached, at_time 738886 23 59 59, one_deal)]"

section \<open>Fees\<close>






section \<open>Statistics when the history query fails\<close>

text \<open>
  Claim C6: when the trade-history query raises, \<^verbatim>\<open>get_daily_stats\<close> returns the all-zero
  statistics (no trades, zero gross, fees, net, percentage and average, no estimated time),
  the error is logged, and the call returns normally: its only effect on the manager is the
  log record.
\<close>

theorem get_daily_stats_query_failure:
  assumes "history_deals_get (combine (date_of now) time_min) (combine (date_of now) time_max)
             = Raises e"
  shows "get_daily_stats self now history_deals_get
           = (zero_stats, self\<lparr>logger := logger self @ [(ERROR, ErrorCalculatingStats e)]\<rparr>)
         \<and> trades_count zero_stats = 0 \<and> gross_profit zero_stats = 0
         \<and> total_fees zero_stats = 0 \<and> net_profit zero_stats = 0
         \<and> target_percentage zero_stats = 0 \<and> average_profit_per_trade zero_stats = 0
         \<and> estimated_target_eta zero_stats = None"
  using assms by (simp add: get_daily_stats_def Let_def emit_def zero_stats_def)

text \<open>
  Claim C6 at a concrete input: the default manager on Monday noon, with a history query that
  raises.
\<close>

theorem get_daily_stats_query_failure_witness:
  "failing_history (combine (date_of monday_noon) time_min)
                   (combine (date_of monday_noon) time_max)
     = Raises (OtherError ''IPC timeout'')
   \<and> get_daily_stats default_manager monday_noon failing_history
       = (zero_stats,
          default_manager\<lparr>logger := logger default_manager
                             @ [(ERROR, ErrorCalculatingStats (OtherError ''IPC timeout''))]\<rparr>)"
  using get_daily_stats_query_failure
          [of failing_history monday_noon "OtherError ''IPC timeout''" default_manager]
  by (simp add: failing_history_def)

section \<open>Recording trades\<close>

lemma record_trade_fields:
  "trades_today (record_trade self lot_size profit now) = trades_today self + 1"
  "gross_profit_today (record_trade self lot_size profit now) = gross_profit_today self + profit"
  "total_fees_today (record_trade self lot_size profit now)
     = total_fees_today self + calculate_trade_fee self lot_size"
  "net_profit_today (record_trade self lot_size profit now)
     = gross_profit_today (record_trade self lot_size profit now)
       - total_fees_today (record_trade self lot_size profit now)"
  "last_trade_time (record_trade self lot_size profit now) = Some now"
  "daily_target_reached (record_trade self lot_size profit now) = daily_target_reached self"
  "last_reset_date (record_trade self lot_size profit now) = last_reset_date self"
  "broker_fee_per_lot (record_trade self lot_size profit now) = broker_fee_per_lot self"
  by (simp_all add: record_trade_def Let_def emit_def calculate_trade_fee_def)

lemma calculate_trade_fee_record_trade:
  "calculate_trade_fee (record_trade self lot_size profit now) l = calculate_trade_fee self l"
  by (simp add: calculate_trade_fee_def record_trade_fields)

lemma record_trades_totals:
  "trades_today (record_trades self cs) = trades_today self + int (length cs)
   \<and> gross_profit_today (record_trades self cs)
       = gross_profit_today self + sum_list (map (\<lambda>c. fst (snd c)) cs)
   \<and> total_fees_today (record_trades self cs)
       = total_fees_today self + sum_list (map (\<lambda>c. calculate_trade_fee self (fst c)) cs)
   \<and> (net_profit_today self = gross_profit_today self - total_fees_today self \<or> cs \<noteq> []
        \<longrightarrow> net_profit_today (record_trades self cs)
            = gross_profit_today (record_trades self cs) - total_fees_today (record_trades self cs))"
proof (induction cs arbitrary: self)
  case Nil
  show ?case by simp
next
  case (Cons c cs)
  obtain lot_size profit now where c: "c = (lot_size, profit, now)"
    by (cases c) auto
  show ?case
    using Cons.IH [of "record_trade self lot_size profit now"]
    by (simp add: c record_trade_fields calculate_trade_fee_record_trade)
qed

lemma reset_daily_state_fields:
  "daily_target_reached (reset_daily_state self now) = False"
  "last_reset_date (reset_daily_state self now) = date_of now"
  "trades_today (reset_daily_state self now) = 0"
  "total_fees_today (reset_daily_state self now) = 0"
  "gross_profit_today (reset_daily_state self now) = 0"
  "net_profit_today (reset_daily_state self now) = 0"
  "last_trade_time (reset_daily_state self now) = None"
  "logger (reset_daily_state self now) = logger self @ [(INFO, MidnightReset)]"
  by (simp_all add: reset_daily_state_def emit_def)

lemma calculate_trade_fee_reset:
  "calculate_trade_fee (reset_daily_state self t) l = calculate_trade_fee self l"
  by (simp add: calculate_trade_fee_def reset_daily_state_def emit_def)

text \<open>
  Claim C3: after every sequence of \<^verbatim>\<open>record_trade\<close> calls on a freshly reset state the net
  profit is the gross profit minus the total fees (all prefixes of a sequence are sequences,
  so this holds after each call); the trade count is the number of calls, the gross profit
  the sum of the profits and the total fees the sum of the computed fees. One call, from any
  state, adds one to the count, the profit to the gross, the computed fee to the fees, and
  recomputes the net. Floats being exact rationals here, the equality is exact.
\<close>

theorem record_trade_net_invariant:
  "net_profit_today (record_trades (reset_daily_state self t) calls)
     = gross_profit_today (record_trades (reset_daily_state self t) calls)
       - total_fees_today (record_trades (reset_daily_state self t) calls)
   \<and> trades_today (record_trades (reset_daily_state self t) calls) = int (length calls)
   \<and> gross_profit_today (record_trades (reset_daily_state self t) calls)
       = sum_list (map (\<lambda>c. fst (snd c)) calls)
   \<and> total_fees_today (record_trades (reset_daily_state self t) calls)
       = sum_list (map (\<lambda>c. calculate_trade_fee self (fst c)) calls)
   \<and> trades_today (record_trade s lot_size profit now) = trades_today s + 1
   \<and> gross_profit_today (record_trade s lot_size profit now) = gross_profit_today s + profit
   \<and> total_fees_today (record_trade s lot_size profit now)
       = total_fees_today s + calculate_trade_fee s lot_size
   \<and> net_profit_today (record_trade s lot_size profit now)
       = gross_profit_today (record_trade s lot_size profit now)
         - total_fees_today (record_trade s lot_size profit now)"
  using record_trades_totals [of "reset_daily_state self t" calls]
  by (simp add: reset_daily_state_fields record_trade_fields calculate_trade_fee_reset)

section \<open>The gating decision\<close>

lemma get_daily_stats_frame:
  "daily_target_reached (snd (get_daily_stats self now h)) = daily_target_reached self"
  "last_reset_date (snd (get_daily_stats self now h)) = last_reset_date self"
  "last_trade_time (snd (get_daily_stats self now h)) = last_trade_time self"
  "pacing_mode (snd (get_daily_stats self now h)) = pacing_mode self"
  "enable_pacing (snd (get_daily_stats self now h)) = enable_pacing self"
  "daily_target_gross (snd (get_daily_stats self now h)) = daily_target_gross self"
  "min_trade_interval_normal (snd (get_daily_stats self now h)) = min_trade_interval_normal self"
  "min_trade_interval_aggressive (snd (get_daily_stats self now h))
     = min_trade_interval_aggressive self"
  "adaptive_threshold (snd (get_daily_stats self now h)) = adaptive_threshold self"
  "friday_close_hour (snd (get_daily_stats self now h)) = friday_close_hour self"
  "state_file (snd (get_daily_stats self now h)) = state_file self"
  by (simp_all add: get_daily_stats_def Let_def emit_def split: query_result.splits)

lemma get_daily_stats_target_events:
  "target_events (snd (get_daily_stats self now h)) = target_events self"
  by (simp add: get_daily_stats_def Let_def emit_def target_events_def split: query_result.splits)

lemma required_interval_frame:
  "daily_target_reached (snd (required_interval self now h)) = daily_target_reached self"
  "last_reset_date (snd (required_interval self now h)) = last_reset_date self"
  "last_trade_time (snd (required_interval self now h)) = last_trade_time self"
  "pacing_mode (snd (required_interval self now h)) = pacing_mode self"
  "target_events (snd (required_interval self now h)) = target_events self"
  by (simp_all add: required_interval_def Let_def get_daily_stats_frame
        get_daily_stats_target_events split: prod.splits)
      (metis get_daily_stats_frame get_daily_stats_target_events snd_conv)+

lemma midnight_rollover_settings:
  "friday_close_hour (midnight_rollover self now) = friday_close_hour self"
  "enable_pacing (midnight_rollover self now) = enable_pacing self"
  "pacing_mode (midnight_rollover self now) = pacing_mode self"
  by (simp_all add: midnight_rollover_def reset_daily_state_def emit_def)

lemma should_allow_trading_cases:
  "should_allow_trading self now h =
     (let s1 = midnight_rollover self now
      in if daily_target_reached s1
         then ((False, TargetReachedPaused (gross_profit_today s1)), s1)
         else if weekday now = 4 \<and> friday_close_hour self \<le> hour now
         then ((False, FridayCloses (friday_close_hour self)), s1)
         else if enable_pacing self
         then (case last_trade_time s1 of
                 None \<Rightarrow> ((True, TradingAllowed), s1)
               | Some t \<Rightarrow>
                   if total_seconds now t < fst (required_interval s1 now h)
                   then ((False, TradePacingWait
                                   (py_int (fst (required_interval s1 now h) - total_seconds now t))
                                   (pacing_mode self)),
                         snd (required_interval s1 now h))
                   else ((True, TradingAllowed), snd (required_interval s1 now h)))
         else ((True, TradingAllowed), s1))"
  unfolding should_allow_trading_def Let_def midnight_rollover_def [symmetric]
  by (simp add: midnight_rollover_settings required_interval_frame split: option.splits prod.splits)
     (metis midnight_rollover_settings(3) required_interval_frame(4) snd_conv)


lemma midnight_rollover_advanced:
  "last_reset_date self < date_of now \<Longrightarrow> midnight_rollover self now = reset_daily_state self now"
  by (simp add: midnight_rollover_def)

text \<open>
  Claim C1: \<^verbatim>\<open>should_allow_trading\<close> decides in this order. (a) When the clock's date is past
  the stored reset date the daily state is reset first, and the decision is taken on the reset
  state. (b) When the target-reached flag is set, it denies with the target-reached reason.
  (c) Otherwise, on a Friday whose hour is at least the configured close hour, it denies with
  the Friday reason; when it is not Friday or the hour is below the close hour, the reason is
  never the Friday one. (d) Otherwise, when pacing is enabled, a last-trade time exists and
  the seconds elapsed since then are below the required interval, it denies with the seconds
  to wait. (e) Otherwise it allows.
\<close>

theorem should_allow_trading_priority:
  "(last_reset_date self < date_of now
      \<longrightarrow> snd (should_allow_trading self now h) = reset_daily_state self now)
   \<and> (daily_target_reached (midnight_rollover self now)
      \<longrightarrow> fst (should_allow_trading self now h)
          = (False, TargetReachedPaused (gross_profit_today (midnight_rollover self now))))
   \<and> (\<not> daily_target_reached (midnight_rollover self now)
      \<and> weekday now = 4 \<and> friday_close_hour self \<le> hour now
      \<longrightarrow> fst (should_allow_trading self now h) = (False, FridayCloses (friday_close_hour self)))
   \<and> (\<not> (weekday now = 4 \<and> friday_close_hour self \<le> hour now)
      \<longrightarrow> snd (fst (should_allow_trading self now h)) \<noteq> FridayCloses c)
   \<and> (\<not> daily_target_reached (midnight_rollover self now)
      \<and> \<not> (weekday now = 4 \<and> friday_close_hour self \<le> hour now)
      \<and> enable_pacing self
      \<and> last_trade_time (midnight_rollover self now) = Some t
      \<and> total_seconds now t < fst (required_interval (midnight_rollover self now) now h)
      \<longrightarrow> fst (should_allow_trading self now h)
          = (False,
             TradePacingWait
               (py_int (fst (required_interval (midnight_rollover self now) now h)
                        - total_seconds now t))
               (pacing_mode self)))
   \<and> (\<not> daily_target_reached (midnight_rollover self now)
      \<and> \<not> (weekday now = 4 \<and> friday_close_hour self \<le> hour now)
      \<and> \<not> (enable_pacing self
            \<and> (\<exists>t'. last_trade_time (midnight_rollover self now) = Some t'
                    \<and> total_seconds now t'
                        < fst (required_interval (midnight_rollover self now) now h)))
      \<longrightarrow> fst (should_allow_trading self now h) = (True, TradingAllowed))"
proof -
  have a: "last_reset_date self < date_of now
      \<longrightarrow> snd (should_allow_trading self now h) = reset_daily_state self now"
    by (simp add: should_allow_trading_cases Let_def midnight_rollover_advanced
          reset_daily_state_fields)
  show ?thesis
    using a by (auto simp: should_allow_trading_cases Let_def split: option.splits)
qed

text \<open>
  Claim C1 at concrete inputs: with the close hour 22, the call on Friday at 22:05 denies for
  the Friday reason, and the call on Friday at 21:59 does not and allows.
\<close>

theorem should_allow_trading_priority_witness:
  "\<not> daily_target_reached (midnight_rollover friday_manager friday_2205)
   \<and> weekday friday_2205 = 4 \<and> friday_close_hour friday_manager \<le> hour friday_2205
   \<and> fst (should_allow_trading friday_manager friday_2205 no_deals) = (False, FridayCloses 22)
   \<and> \<not> (weekday friday_2159 = 4 \<and> friday_close_hour friday_manager \<le> hour friday_2159)
   \<and> snd (fst (should_allow_trading friday_manager friday_2159 no_deals)) \<noteq> FridayCloses 22
   \<and> fst (should_allow_trading friday_manager friday_2159 no_deals) = (True, TradingAllowed)"
proof -
  have e1: "\<not> daily_target_reached (midnight_rollover friday_manager friday_2205)"
    by code_simp
  have e2: "weekday friday_2205 = 4" "friday_close_hour friday_manager \<le> hour friday_2205"
           "friday_close_hour friday_manager = 22"
    by code_simp+
  have e3: "\<not> (weekday friday_2159 = 4 \<and> friday_close_hour friday_manager \<le> hour friday_2159)"
    by code_simp
  have e4: "\<not> daily_target_reached (midnight_rollover friday_manager friday_2159)"
    by code_simp
  have e5: "last_trade_time (midnight_rollover friday_manager friday_2159) = None"
    by code_simp
  show ?thesis
    using should_allow_trading_priority [of friday_manager friday_2205 no_deals 22]
          should_allow_trading_priority [of friday_manager friday_2159 no_deals 22]
          e1 e2 e3 e4 e5
    by simp
qed

section \<open>Pacing\<close>

lemma py_int_truncates:
  "0 \<le> x \<Longrightarrow> of_int (py_int x) \<le> x \<and> x < of_int (py_int x) + 1 \<and> 0 \<le> py_int x"
  unfolding py_int_def by (simp; linarith)

lemma required_interval_value:
  "fst (required_interval s now h) =
     (if pacing_mode s = ''aggressive'' then min_trade_interval_aggressive s
      else if pacing_mode s = ''gentle'' then min_trade_interval_normal s
      else if pacing_mode s = ''adaptive''
      then (if target_percentage (fst (get_daily_stats s now h))
                 < ((of_int (hour now) + of_int (minute now) / 60) / 24) * 100
                   * adaptive_threshold s
            then min_trade_interval_aggressive s
            else min_trade_interval_normal s)
      else min_trade_interval_normal s)"
proof -
  obtain st s1 where g: "get_daily_stats s now h = (st, s1)"
    by (cases "get_daily_stats s now h")
  have f: "adaptive_threshold s1 = adaptive_threshold s"
          "min_trade_interval_normal s1 = min_trade_interval_normal s"
          "min_trade_interval_aggressive s1 = min_trade_interval_aggressive s"
    using get_daily_stats_frame [of s now h] by (simp_all add: g)
  show ?thesis
    unfolding required_interval_def g Let_def prod.case f fst_conv
    by (simp only: if_distrib [of fst] fst_conv)
qed

text \<open>
  Claim C4: the interval required between two trades is the aggressive interval in the
  aggressive mode and the normal interval in the gentle mode; in the adaptive mode it is
  the aggressive interval exactly when the target percentage of the statistics is below
  \<^verbatim>\<open>(hours_elapsed / 24) * 100 * adaptive_threshold\<close>, with
  \<^verbatim>\<open>hours_elapsed = hour + minute / 60\<close>, and the normal interval otherwise. A call that
  reaches the pacing check (pacing enabled, a last trade, no reset pending, no earlier denial)
  denies when the elapsed seconds are below the required interval, with the remaining seconds
  truncated to an integer in the reason, and allows otherwise.
\<close>

theorem pacing_interval_selection:
  "(pacing_mode s = ''aggressive''
      \<longrightarrow> fst (required_interval s now h) = min_trade_interval_aggressive s)
   \<and> (pacing_mode s = ''gentle''
      \<longrightarrow> fst (required_interval s now h) = min_trade_interval_normal s)
   \<and> (pacing_mode s = ''adaptive''
      \<longrightarrow> fst (required_interval s now h)
          = (if target_percentage (fst (get_daily_stats s now h))
                  < ((of_int (hour now) + of_int (minute now) / 60) / 24) * 100
                    * adaptive_threshold s
             then min_trade_interval_aggressive s
             else min_trade_interval_normal s))
   \<and> (\<not> daily_target_reached s \<and> \<not> last_reset_date s < date_of now
      \<and> \<not> (weekday now = 4 \<and> friday_close_hour s \<le> hour now)
      \<and> enable_pacing s \<and> last_trade_time s = Some t
      \<longrightarrow> fst (should_allow_trading s now h)
          = (if total_seconds now t < fst (required_interval s now h)
             then (False,
                   TradePacingWait (py_int (fst (required_interval s now h) - total_seconds now t))
                                   (pacing_mode s))
             else (True, TradingAllowed)))
   \<and> (total_seconds now t < fst (required_interval s now h)
      \<longrightarrow> of_int (py_int (fst (required_interval s now h) - total_seconds now t))
            \<le> fst (required_interval s now h) - total_seconds now t
          \<and> fst (required_interval s now h) - total_seconds now t
            < of_int (py_int (fst (required_interval s now h) - total_seconds now t)) + 1)"
proof -
  have modes:
    "pacing_mode s = ''aggressive''
       \<longrightarrow> fst (required_interval s now h) = min_trade_interval_aggressive s"
    "pacing_mode s = ''gentle''
       \<longrightarrow> fst (required_interval s now h) = min_trade_interval_normal s"
    "pacing_mode s = ''adaptive''
      \<longrightarrow> fst (required_interval s now h)
          = (if target_percentage (fst (get_daily_stats s now h))
                  < ((of_int (hour now) + of_int (minute now) / 60) / 24) * 100
                    * adaptive_threshold s
             then min_trade_interval_aggressive s
             else min_trade_interval_normal s)"
    by (simp_all add: required_interval_value)
  have gate:
    "\<not> daily_target_reached s \<and> \<not> last_reset_date s < date_of now
      \<and> \<not> (weekday now = 4 \<and> friday_close_hour s \<le> hour now)
      \<and> enable_pacing s \<and> last_trade_time s = Some t
      \<longrightarrow> fst (should_allow_trading s now h)
          = (if total_seconds now t < fst (required_interval s now h)
             then (False,
                   TradePacingWait (py_int (fst (required_interval s now h) - total_seconds now t))
                                   (pacing_mode s))
             else (True, TradingAllowed))"
    by (simp add: should_allow_trading_cases Let_def midnight_rollover_def)
  have wait:
    "total_seconds now t < fst (required_interval s now h)
      \<longrightarrow> of_int (py_int (fst (required_interval s now h) - total_seconds now t))
            \<le> fst (required_interval s now h) - total_seconds now t
          \<and> fst (required_interval s now h) - total_seconds now t
            < of_int (py_int (fst (required_interval s now h) - total_seconds now t)) + 1"
    using py_int_truncates [of "fst (required_interval s now h) - total_seconds now t"] by simp
  show ?thesis
    using modes gate wait by blast
qed

text \<open>
  Claim C4 at concrete inputs: gentle mode, normal interval 180 s, a trade recorded on Monday
  at 12:00:00. The call at 12:01:40 (100 s later) denies with 80 s to wait; the call at
  12:03:01 (181 s later) allows.
\<close>

theorem pacing_interval_selection_witness:
  "pacing_mode gentle_manager = ''gentle''
   \<and> min_trade_interval_normal gentle_manager = 180
   \<and> last_trade_time gentle_manager = Some monday_noon
   \<and> fst (should_allow_trading gentle_manager (at_time 738886 12 1 40) no_deals)
       = (False, TradePacingWait 80 ''gentle'')
   \<and> fst (should_allow_trading gentle_manager (at_time 738886 12 3 1) no_deals)
       = (True, TradingAllowed)"
proof -
  have e1: "pacing_mode gentle_manager = ''gentle''"
           "min_trade_interval_normal gentle_manager = 180"
           "last_trade_time gentle_manager = Some monday_noon"
           "enable_pacing gentle_manager"
           "\<not> daily_target_reached gentle_manager"
           "friday_close_hour gentle_manager = 22"
           "last_reset_date gentle_manager = 738886"
    by code_simp+
  have e2: "weekday (at_time 738886 12 1 40) = 0" "weekday (at_time 738886 12 3 1) = 0"
           "date_of (at_time 738886 12 1 40) = 738886" "date_of (at_time 738886 12 3 1) = 738886"
    by code_simp+
  have e3: "total_seconds (at_time 738886 12 1 40) monday_noon = 100"
           "total_seconds (at_time 738886 12 3 1) monday_noon = 181"
    by code_simp+
  have e4: "py_int 80 = 80"
    by code_simp
  show ?thesis
    using pacing_interval_selection
            [of gentle_manager "at_time 738886 12 1 40" no_deals monday_noon]
          pacing_interval_selection
            [of gentle_manager "at_time 738886 12 3 1" no_deals monday_noon]
          e1 e2 e3 e4
    by simp
qed

section \<open>Saving and loading the state\<close>

lemma load_saved_counters:
  assumes "last_reset_date self = date_of now"
    and "state_file r = state_file self"
    and "last_trade_time self = None \<longrightarrow> last_trade_time r = None"
  shows "counters (load_state r now (snd (save_state self WriteOk files))) = counters self"
  using assms
  by (cases "last_trade_time self")
     (simp_all add: load_state_def save_state_def snapshot_of_def Let_def counters_def emit_def
        get_or_def)

lemma load_other_date_counters:
  assumes "files (state_file self) = Some (Json snap)"
    and "date_field snap \<noteq> Iso (date_of now)"
  shows "counters (load_state self now files) = counters self"
  using assms
  by (cases "date_field snap")
     (simp_all add: load_state_def Let_def counters_def emit_def)

lemma save_state_manager:
  "state_file (fst (save_state self io files)) = state_file self"
  "counters (fst (save_state self io files)) = counters self"
  "last_reset_date (fst (save_state self io files)) = last_reset_date self"
  by (cases io; simp add: save_state_def Let_def emit_def counters_def)+

text \<open>
  Claim C7: when the stored reset date is today's date, a successful \<^verbatim>\<open>save_state\<close>
  followed by \<^verbatim>\<open>load_state\<close> reproduces the counters (target-reached flag, trade count,
  gross, fees, net, last-trade time), both on the manager that saved and on a freshly
  initialised manager with the same state file, as after a restart. When the snapshot in the
  file does not carry today's date, \<^verbatim>\<open>load_state\<close> leaves the counters as they were.
\<close>

theorem save_load_round_trip:
  "(last_reset_date self = date_of now
      \<longrightarrow> counters (load_state (fst (save_state self WriteOk files)) now
                              (snd (save_state self WriteOk files)))
          = counters self)
   \<and> (last_reset_date self = date_of now
        \<and> cfg_daily_profit_state_file config = state_file self
      \<longrightarrow> counters (load_state (init config magic symbol_name start) now
                              (snd (save_state self WriteOk files)))
          = counters self)
   \<and> (files (state_file self) = Some (Json snap) \<and> date_field snap \<noteq> Iso (date_of now)
      \<longrightarrow> counters (load_state self now files) = counters self)"
proof -
  have same: "last_reset_date self = date_of now
      \<longrightarrow> counters (load_state (fst (save_state self WriteOk files)) now
                              (snd (save_state self WriteOk files)))
          = counters self"
    using load_saved_counters [of self now "fst (save_state self WriteOk files)" files]
    by (simp add: save_state_def Let_def emit_def)
  have fresh: "last_reset_date self = date_of now
        \<and> cfg_daily_profit_state_file config = state_file self
      \<longrightarrow> counters (load_state (init config magic symbol_name start) now
                              (snd (save_state self WriteOk files)))
          = counters self"
    using load_saved_counters [of self now "init config magic symbol_name start" files]
    by (simp add: init_def)
  have other: "files (state_file self) = Some (Json snap) \<and> date_field snap \<noteq> Iso (date_of now)
      \<longrightarrow> counters (load_state self now files) = counters self"
    using load_other_date_counters [of files self snap now] by simp
  show ?thesis
    using same fresh other by blast
qed

text \<open>
  Claim C7 at concrete inputs: Monday's state with the target reached is saved and loaded on
  Monday into a fresh manager, which then has the same counters; loaded on Tuesday, the same
  file changes no counter of the default manager.
\<close>

theorem save_load_round_trip_witness:
  "last_reset_date reached_manager = date_of monday_noon
   \<and> cfg_daily_profit_state_file default_config = state_file reached_manager
   \<and> counters (load_state (init default_config 79 ''XAUUSD'' monday_noon) monday_noon
                          (snd (save_state reached_manager WriteOk Map.empty)))
       = counters reached_manager
   \<and> counters reached_manager = (True, 1, 200, 193 / 50, 9807 / 50, Some monday_noon)
   \<and> reached_files (state_file default_manager) = Some (Json (snapshot_of reached_manager))
   \<and> date_field (snapshot_of reached_manager) \<noteq> Iso (date_of tuesday_morning)
   \<and> counters (load_state default_manager tuesday_morning reached_files)
       = counters default_manager"
proof -
  have e1: "last_reset_date reached_manager = date_of monday_noon"
           "cfg_daily_profit_state_file default_config = state_file reached_manager"
    by code_simp+
  have e2: "counters reached_manager = (True, 1, 200, 193 / 50, 9807 / 50, Some monday_noon)"
    by code_simp
  have e3: "reached_files (state_file default_manager) = Some (Json (snapshot_of reached_manager))"
    by code_simp
  have e4: "date_field (snapshot_of reached_manager) \<noteq> Iso (date_of tuesday_morning)"
    by code_simp
  show ?thesis
    using save_load_round_trip
            [of reached_manager monday_noon Map.empty default_config 79 "''XAUUSD''" monday_noon]
          save_load_round_trip
            [of default_manager tuesday_morning reached_files default_config 79 "''XAUUSD''"
                monday_noon "snapshot_of reached_manager"]
          e1 e2 e3 e4
    by simp
qed

section \<open>The midnight rollover\<close>

lemma check_target_reached_frame:
  "last_reset_date (snd (check_target_reached self now h)) = last_reset_date self"
  "last_trade_time (snd (check_target_reached self now h)) = last_trade_time self"
proof -
  obtain st s1 where g: "get_daily_stats self now h = (st, s1)"
    by (cases "get_daily_stats self now h")
  have f: "last_reset_date s1 = last_reset_date self" "last_trade_time s1 = last_trade_time self"
    using get_daily_stats_frame [of self now h] by (simp_all add: g)
  show "last_reset_date (snd (check_target_reached self now h)) = last_reset_date self"
    by (simp add: check_target_reached_def g f Let_def emit_def)
  show "last_trade_time (snd (check_target_reached self now h)) = last_trade_time self"
    by (simp add: check_target_reached_def g f Let_def emit_def)
qed

lemma get_progress_report_state:
  "snd (get_progress_report self now h) = snd (get_daily_stats self now h)"
proof -
  obtain st s1 where g: "get_daily_stats self now h = (st, s1)"
    by (cases "get_daily_stats self now h")
  show ?thesis
    by (cases "get_friday_trading_hours_remaining s1 now")
       (simp_all add: get_progress_report_def g Let_def)
qed

lemma get_compact_progress_state:
  "snd (get_compact_progress self now h) = snd (get_daily_stats self now h)"
  by (cases "get_daily_stats self now h") (simp add: get_compact_progress_def)

lemma should_allow_trading_after_reset:
  assumes "last_reset_date self < date_of now"
  shows "should_allow_trading self now h = should_allow_trading (reset_daily_state self now) now h"
  using assms
  by (simp add: should_allow_trading_def Let_def reset_daily_state_fields)

lemma should_allow_trading_resets:
  assumes "last_reset_date self < date_of now"
  shows "snd (should_allow_trading self now h) = reset_daily_state self now"
  using assms
  by (simp add: should_allow_trading_cases Let_def midnight_rollover_advanced
        reset_daily_state_fields)

lemma update_after_reset:
  assumes "last_reset_date self < date_of now"
  shows "update self now io files = (reset_daily_state self now, files)"
  using assms by (simp add: update_def Let_def reset_daily_state_fields)

text \<open>
  Claim C8, as stated, has every statistics or gating operation reset the daily state when
  the date has advanced. \<^verbatim>\<open>get_daily_stats\<close>, \<^verbatim>\<open>check_target_reached\<close> and the reports
  have no such check: on Tuesday morning, Monday's state with the target reached goes through
  \<^verbatim>\<open>get_daily_stats\<close> unchanged, with Monday as its reset date, the flag still set after
  \<^verbatim>\<open>check_target_reached\<close> and Monday's trade count still there after the compact report.
\<close>

theorem stats_without_rollover_counterexample:
  "last_reset_date reached_manager < date_of tuesday_morning
   \<and> daily_target_reached reached_manager
   \<and> get_daily_stats reached_manager tuesday_morning no_deals = (zero_stats, reached_manager)
   \<and> last_reset_date (snd (get_daily_stats reached_manager tuesday_morning no_deals)) = 738886
   \<and> date_of tuesday_morning = 738887
   \<and> daily_target_reached (snd (check_target_reached reached_manager tuesday_morning no_deals))
   \<and> trades_today (snd (get_compact_progress reached_manager tuesday_morning no_deals)) = 1"
  by code_simp

text \<open>
  Claim C8, amended: \<^verbatim>\<open>should_allow_trading\<close> and \<^verbatim>\<open>update\<close> perform the daily reset
  first when the clock's date is past the stored reset date: the call behaves as on the reset
  state, which has zero counters, a cleared flag, no last-trade time and today as the reset
  date, and that is the state it leaves. \<^verbatim>\<open>get_daily_stats\<close>, \<^verbatim>\<open>check_target_reached\<close>,
  \<^verbatim>\<open>get_progress_report\<close> and \<^verbatim>\<open>get_compact_progress\<close> never change the reset date.
\<close>

theorem rollover_in_gating_and_update:
  "(last_reset_date self < date_of now
      \<longrightarrow> should_allow_trading self now h
            = should_allow_trading (reset_daily_state self now) now h
        \<and> snd (should_allow_trading self now h) = reset_daily_state self now
        \<and> update self now io files = (reset_daily_state self now, files)
        \<and> counters (reset_daily_state self now) = (False, 0, 0, 0, 0, None)
        \<and> last_reset_date (reset_daily_state self now) = date_of now)
   \<and> last_reset_date (snd (get_daily_stats self now h)) = last_reset_date self
   \<and> last_reset_date (snd (check_target_reached self now h)) = last_reset_date self
   \<and> last_reset_date (snd (get_progress_report self now h)) = last_reset_date self
   \<and> last_reset_date (snd (get_compact_progress self now h)) = last_reset_date self"
proof -
  have r: "last_reset_date self < date_of now
      \<longrightarrow> should_allow_trading self now h
            = should_allow_trading (reset_daily_state self now) now h
        \<and> snd (should_allow_trading self now h) = reset_daily_state self now
        \<and> update self now io files = (reset_daily_state self now, files)"
    using should_allow_trading_after_reset [of self now h] update_after_reset [of self now io files]
          should_allow_trading_resets [of self now h]
    by simp
  have z: "counters (reset_daily_state self now) = (False, 0, 0, 0, 0, None)"
          "last_reset_date (reset_daily_state self now) = date_of now"
    by (simp_all add: counters_def reset_daily_state_fields)
  have f: "last_reset_date (snd (get_daily_stats self now h)) = last_reset_date self"
          "last_reset_date (snd (check_target_reached self now h)) = last_reset_date self"
          "last_reset_date (snd (get_progress_report self now h)) = last_reset_date self"
          "last_reset_date (snd (get_compact_progress self now h)) = last_reset_date self"
    by (simp_all add: get_daily_stats_frame check_target_reached_frame
          get_progress_report_state get_compact_progress_state)
  show ?thesis
    using r z f by blast
qed

text \<open>
  Claim C8, amended, at a concrete input: Monday's state with the target reached, on Tuesday
  morning. The gating call resets and allows; \<^verbatim>\<open>update\<close> resets and, the trade count being
  zero again, writes nothing.
\<close>

theorem rollover_in_gating_and_update_witness:
  "last_reset_date reached_manager < date_of tuesday_morning
   \<and> should_allow_trading reached_manager tuesday_morning no_deals
       = ((True, TradingAllowed), reset_daily_state reached_manager tuesday_morning)
   \<and> update reached_manager tuesday_morning WriteOk Map.empty
       = (reset_daily_state reached_manager tuesday_morning, Map.empty)
   \<and> last_reset_date (reset_daily_state reached_manager tuesday_morning) = 738887"
proof -
  have e1: "last_reset_date reached_manager < date_of tuesday_morning"
    by code_simp
  have e2: "fst (should_allow_trading reached_manager tuesday_morning no_deals)
              = (True, TradingAllowed)"
    by code_simp
  have e3: "date_of tuesday_morning = 738887"
    by code_simp
  have a: "snd (should_allow_trading reached_manager tuesday_morning no_deals)
             = reset_daily_state reached_manager tuesday_morning"
           "update reached_manager tuesday_morning WriteOk Map.empty
             = (reset_daily_state reached_manager tuesday_morning, Map.empty)"
           "last_reset_date (reset_daily_state reached_manager tuesday_morning)
             = date_of tuesday_morning"
    using rollover_in_gating_and_update
            [of reached_manager tuesday_morning no_deals WriteOk Map.empty]
          e1
    by blast+
  have b: "should_allow_trading reached_manager tuesday_morning no_deals
             = ((True, TradingAllowed), reset_daily_state reached_manager tuesday_morning)"
    by (metis e2 a(1) prod.collapse)
  show ?thesis
    using e1 a b e3 by simp
qed

section \<open>The reports and the counters\<close>






section \<open>Reaching the target\<close>

lemma target_events_emit:
  "target_events (emit l msg s)
     = target_events s + (if (l, msg) = (INFO, DailyTargetReached) then 1 else 0)"
  by (simp add: target_events_def emit_def)

lemma emit_frame:
  "daily_target_reached (emit l msg s) = daily_target_reached s"
  "last_reset_date (emit l msg s) = last_reset_date s"
  "trades_today (emit l msg s) = trades_today s"
  by (simp_all add: emit_def)

lemma target_events_update:
  "target_events (s\<lparr>daily_target_reached := b\<rparr>) = target_events s"
  by (simp add: target_events_def)

lemma check_target_reached_result:
  "fst (fst (check_target_reached self now h))
     \<longleftrightarrow> daily_target_gross self \<le> gross_profit (fst (get_daily_stats self now h))"
  "snd (fst (check_target_reached self now h)) = fst (get_daily_stats self now h)"
  "daily_target_reached (snd (check_target_reached self now h))
     \<longleftrightarrow> daily_target_reached self
         \<or> daily_target_gross self \<le> gross_profit (fst (get_daily_stats self now h))"
  "target_events (snd (check_target_reached self now h))
     = target_events self
       + (if daily_target_gross self \<le> gross_profit (fst (get_daily_stats self now h))
             \<and> \<not> daily_target_reached self
          then 1 else 0)"
proof -
  obtain st s1 where g: "get_daily_stats self now h = (st, s1)"
    by (cases "get_daily_stats self now h")
  have f: "daily_target_reached s1 = daily_target_reached self"
          "daily_target_gross s1 = daily_target_gross self"
          "target_events s1 = target_events self"
    using get_daily_stats_frame [of self now h] get_daily_stats_target_events [of self now h]
    by (simp_all add: g)
  show "fst (fst (check_target_reached self now h))
     \<longleftrightarrow> daily_target_gross self \<le> gross_profit (fst (get_daily_stats self now h))"
    by (simp add: check_target_reached_def g f Let_def)
  show "snd (fst (check_target_reached self now h)) = fst (get_daily_stats self now h)"
    by (simp add: check_target_reached_def g f Let_def)
  show "daily_target_reached (snd (check_target_reached self now h))
     \<longleftrightarrow> daily_target_reached self
         \<or> daily_target_gross self \<le> gross_profit (fst (get_daily_stats self now h))"
    by (auto simp: check_target_reached_def g f Let_def)
  show "target_events (snd (check_target_reached self now h))
     = target_events self
       + (if daily_target_gross self \<le> gross_profit (fst (get_daily_stats self now h))
             \<and> \<not> daily_target_reached self
          then 1 else 0)"
    by (simp add: check_target_reached_def g f Let_def target_events_update target_events_emit)
qed

lemma should_pause_trading_state:
  "snd (should_pause_trading self now h) = snd (check_target_reached self now h)"
  "fst (should_pause_trading self now h) = fst (fst (check_target_reached self now h))"
  by (simp_all add: should_pause_trading_def split: prod.splits)

lemma should_allow_trading_state:
  "daily_target_reached (snd (should_allow_trading self now h))
     = daily_target_reached (midnight_rollover self now)"
  "last_reset_date (snd (should_allow_trading self now h))
     = last_reset_date (midnight_rollover self now)"
  "target_events (snd (should_allow_trading self now h))
     = target_events (midnight_rollover self now)"
  by (simp_all add: should_allow_trading_cases Let_def required_interval_frame
        split: option.splits)

lemma midnight_rollover_same_day:
  "date_of now \<le> last_reset_date self \<Longrightarrow> midnight_rollover self now = self"
  by (simp add: midnight_rollover_def)

lemma record_trade_target_events:
  "target_events (record_trade self lot_size profit now) = target_events self"
  by (simp add: record_trade_def Let_def target_events_def emit_def)

lemma save_state_frame:
  "daily_target_reached (fst (save_state self io files)) = daily_target_reached self"
  "last_reset_date (fst (save_state self io files)) = last_reset_date self"
  "target_events (fst (save_state self io files)) = target_events self"
  by (cases io; simp add: save_state_def Let_def emit_frame target_events_emit)+

lemma step_same_day:
  assumes "host_call c" and "date_of now \<le> last_reset_date self"
  shows "last_reset_date (fst (perform (self, files) (c, now, h))) = last_reset_date self
         \<and> (daily_target_reached self
              \<longrightarrow> daily_target_reached (fst (perform (self, files) (c, now, h))))
         \<and> target_events (fst (perform (self, files) (c, now, h)))
             = target_events self
               + (if daily_target_reached (fst (perform (self, files) (c, now, h)))
                     \<and> \<not> daily_target_reached self then 1 else 0)"
proof (cases c)
  case GetDailyStats
  then show ?thesis
    by (simp add: get_daily_stats_frame get_daily_stats_target_events)
next
  case CheckTargetReached
  then show ?thesis
    by (simp add: check_target_reached_frame check_target_reached_result)
next
  case ShouldAllowTrading
  then show ?thesis
    using assms(2) by (simp add: should_allow_trading_state midnight_rollover_same_day)
next
  case ShouldPauseTrading
  then show ?thesis
    by (simp add: should_pause_trading_state check_target_reached_frame
          check_target_reached_result)
next
  case (RecordTrade lot_size profit)
  then show ?thesis
    by (simp add: record_trade_fields record_trade_target_events)
next
  case ResetDailyState
  with assms(1) show ?thesis by simp
next
  case GetProgressReport
  then show ?thesis
    by (simp add: get_progress_report_state get_daily_stats_frame get_daily_stats_target_events)
next
  case GetCompactProgress
  then show ?thesis
    by (simp add: get_compact_progress_state get_daily_stats_frame get_daily_stats_target_events)
next
  case (SaveState io)
  then show ?thesis
    by (simp add: save_state_frame)
next
  case LoadState
  with assms(1) show ?thesis by simp
next
  case (Update io)
  then show ?thesis
    using assms(2) by (simp add: update_def Let_def save_state_frame)
next
  case (TrackTradeOpen ticket direction lot_size)
  then show ?thesis
    by (simp add: track_trade_open_def emit_frame target_events_emit)
next
  case (TrackTradeClose ticket profit direction lot_size)
  then show ?thesis
    by (simp add: track_trade_close_def emit_frame target_events_emit record_trade_fields
          record_trade_target_events)
qed

lemma run_same_day:
  assumes "same_day (last_reset_date self) calls"
  shows "last_reset_date (fst (run (self, files) calls)) = last_reset_date self
         \<and> (daily_target_reached self \<longrightarrow> daily_target_reached (fst (run (self, files) calls)))
         \<and> target_events (fst (run (self, files) calls))
             = target_events self
               + (if daily_target_reached (fst (run (self, files) calls))
                     \<and> \<not> daily_target_reached self then 1 else 0)"
  using assms
proof (induction calls arbitrary: self files)
  case Nil
  show ?case by (simp add: run_def)
next
  case (Cons c cs)
  obtain k now h where c: "c = (k, now, h)"
    by (cases c) auto
  obtain s1 f1 where w: "perform (self, files) (k, now, h) = (s1, f1)"
    by (cases "perform (self, files) (k, now, h)")
  from Cons.prems have hc: "host_call k" and d: "date_of now \<le> last_reset_date self"
    and rest: "same_day (last_reset_date self) cs"
    by (simp_all add: same_day_def c)
  have step: "last_reset_date s1 = last_reset_date self"
    "daily_target_reached self \<longrightarrow> daily_target_reached s1"
    "target_events s1 = target_events self
       + (if daily_target_reached s1 \<and> \<not> daily_target_reached self then 1 else 0)"
    using step_same_day [OF hc d, of files h] by (simp_all add: w)
  have r: "run (self, files) (c # cs) = run (s1, f1) cs"
    by (simp add: run_def c w)
  have ih: "last_reset_date (fst (run (s1, f1) cs)) = last_reset_date s1"
    "daily_target_reached s1 \<longrightarrow> daily_target_reached (fst (run (s1, f1) cs))"
    "target_events (fst (run (s1, f1) cs))
       = target_events s1
         + (if daily_target_reached (fst (run (s1, f1) cs)) \<and> \<not> daily_target_reached s1
            then 1 else 0)"
    using Cons.IH [of s1 f1] rest by (simp_all add: step(1))
  show ?case
    unfolding r using step ih
    by (cases "daily_target_reached self"; cases "daily_target_reached s1";
        cases "daily_target_reached (fst (run (s1, f1) cs))"; simp)
qed

text \<open>
  Claim C2: \<^verbatim>\<open>check_target_reached\<close> returns true exactly when the gross profit of the
  statistics is at least the daily target. The target-reached event is logged once, on the
  call that turns the flag from false to true: over any sequence of host calls on one day
  (no clock value past the stored reset date) a set flag stays set and the number of logged
  events grows by one if the flag went from false to true and by nothing otherwise. While the
  flag is set and no rollover is due, \<^verbatim>\<open>should_allow_trading\<close> denies with the
  target-reached reason and changes nothing; once the date is past the reset date the call
  resets and the flag is cleared.
\<close>

theorem target_reached_edge:
  "(fst (fst (check_target_reached self now h))
      \<longleftrightarrow> daily_target_gross self \<le> gross_profit (snd (fst (check_target_reached self now h))))
   \<and> snd (fst (check_target_reached self now h)) = fst (get_daily_stats self now h)
   \<and> (daily_target_reached (snd (check_target_reached self now h))
        \<longleftrightarrow> daily_target_reached self \<or> fst (fst (check_target_reached self now h)))
   \<and> target_events (snd (check_target_reached self now h))
       = target_events self
         + (if fst (fst (check_target_reached self now h)) \<and> \<not> daily_target_reached self
            then 1 else 0)
   \<and> (same_day (last_reset_date self) calls
      \<longrightarrow> last_reset_date (fst (run (self, files) calls)) = last_reset_date self
        \<and> (daily_target_reached self \<longrightarrow> daily_target_reached (fst (run (self, files) calls)))
        \<and> target_events (fst (run (self, files) calls))
            = target_events self
              + (if daily_target_reached (fst (run (self, files) calls))
                    \<and> \<not> daily_target_reached self then 1 else 0))
   \<and> (daily_target_reached self \<and> date_of now \<le> last_reset_date self
      \<longrightarrow> should_allow_trading self now h
          = ((False, TargetReachedPaused (gross_profit_today self)), self))
   \<and> (last_reset_date self < date_of now
      \<longrightarrow> \<not> daily_target_reached (snd (should_allow_trading self now h)))"
proof -
  have c: "fst (fst (check_target_reached self now h))
      \<longleftrightarrow> daily_target_gross self \<le> gross_profit (snd (fst (check_target_reached self now h)))"
    "snd (fst (check_target_reached self now h)) = fst (get_daily_stats self now h)"
    "daily_target_reached (snd (check_target_reached self now h))
        \<longleftrightarrow> daily_target_reached self \<or> fst (fst (check_target_reached self now h))"
    "target_events (snd (check_target_reached self now h))
       = target_events self
         + (if fst (fst (check_target_reached self now h)) \<and> \<not> daily_target_reached self
            then 1 else 0)"
    by (simp_all add: check_target_reached_result)
  have g: "daily_target_reached self \<and> date_of now \<le> last_reset_date self
      \<longrightarrow> should_allow_trading self now h
          = ((False, TargetReachedPaused (gross_profit_today self)), self)"
    by (simp add: should_allow_trading_cases Let_def midnight_rollover_same_day)
  have n: "last_reset_date self < date_of now
      \<longrightarrow> \<not> daily_target_reached (snd (should_allow_trading self now h))"
    by (simp add: should_allow_trading_resets reset_daily_state_fields)
  have t: "same_day (last_reset_date self) calls
      \<longrightarrow> last_reset_date (fst (run (self, files) calls)) = last_reset_date self
        \<and> (daily_target_reached self \<longrightarrow> daily_target_reached (fst (run (self, files) calls)))
        \<and> target_events (fst (run (self, files) calls))
            = target_events self
              + (if daily_target_reached (fst (run (self, files) calls))
                    \<and> \<not> daily_target_reached self then 1 else 0)"
    by (rule impI) (rule run_same_day)
  show ?thesis
    by (intro conjI c g n t)
qed

text \<open>
  Claim C2 at concrete inputs: a Monday on which a trade of profit 200 passes the target of
  175, followed by checks, gating calls, an update and a report. The event is logged once, the
  flag is set at the end, a gating call at 23:59:59 denies with the target-reached reason, and
  the first gating call on Tuesday clears the flag.
\<close>

theorem target_reached_edge_witness:
  "same_day (last_reset_date default_manager) monday_calls
   \<and> \<not> daily_target_reached default_manager
   \<and> daily_target_reached (fst (run (default_manager, Map.empty) monday_calls))
   \<and> target_events (fst (run (default_manager, Map.empty) monday_calls))
       = target_events default_manager + 1
   \<and> date_of (at_time 738886 23 59 59)
       \<le> last_reset_date (fst (run (default_manager, Map.empty) monday_calls))
   \<and> fst (should_allow_trading (fst (run (default_manager, Map.empty) monday_calls))
                                (at_time 738886 23 59 59) one_deal)
       = (False, TargetReachedPaused 200)
   \<and> last_reset_date (fst (run (default_manager, Map.empty) monday_calls))
       < date_of tuesday_morning
   \<and> \<not> daily_target_reached
         (snd (should_allow_trading (fst (run (default_manager, Map.empty) monday_calls))
                                    tuesday_morning no_deals))"
proof -
  have e1: "same_day (last_reset_date default_manager) monday_calls"
    by code_simp
  have e2: "\<not> daily_target_reached default_manager"
    by code_simp
  have e3: "daily_target_reached (fst (run (default_manager, Map.empty) monday_calls))"
    by code_simp
  have e4: "gross_profit_today (fst (run (default_manager, Map.empty) monday_calls)) = 200"
    by code_simp
  have e5: "date_of (at_time 738886 23 59 59)
              \<le> last_reset_date (fst (run (default_manager, Map.empty) monday_calls))"
    by code_simp
  have e6: "last_reset_date (fst (run (default_manager, Map.empty) monday_calls))
              < date_of tuesday_morning"
    by code_simp
  have a: "target_events (fst (run (default_manager, Map.empty) monday_calls))
             = target_events default_manager + 1"
    using target_reached_edge [of default_manager monday_noon one_deal monday_calls Map.empty]
          e1 e2 e3
    by simp
  have b: "fst (should_allow_trading (fst (run (default_manager, Map.empty) monday_calls))
                                     (at_time 738886 23 59 59) one_deal)
             = (False, TargetReachedPaused 200)"
    using target_reached_edge
            [of "fst (run (default_manager, Map.empty) monday_calls)" "at_time 738886 23 59 59"
                one_deal "[]" Map.empty]
          e3 e4 e5
    by simp
  have c: "\<not> daily_target_reached
              (snd (should_allow_trading (fst (run (default_manager, Map.empty) monday_calls))
                                         tuesday_morning no_deals))"
    using target_reached_edge
            [of "fst (run (default_manager, Map.empty) monday_calls)" tuesday_morning
                no_deals "[]" Map.empty]
          e6
    by simp
  show ?thesis
    by (intro conjI e1 e2 e3 e5 e6 a b c)
qed

section \<open>Who sets the target-reached flag\<close>

lemma record_trade_settings:
  "enable_pacing (record_trade self lot_size profit now) = enable_pacing self"
  "friday_close_hour (record_trade self lot_size profit now) = friday_close_hour self"
  "daily_target_gross (record_trade self lot_size profit now) = daily_target_gross self"
  by (simp_all add: record_trade_def Let_def emit_def)

lemma midnight_rollover_flag:
  "\<not> daily_target_reached self \<Longrightarrow> \<not> daily_target_reached (midnight_rollover self now)"
  by (simp add: midnight_rollover_def reset_daily_state_fields)

lemma load_state_flag:
  assumes "\<not> daily_target_reached self" and "daily_target_reached (load_state self now files)"
  shows "\<exists>snap. files (state_file self) = Some (Json snap)
                \<and> date_field snap = Iso (date_of now)
                \<and> target_reached_field snap = Some True"
  using assms
  by (auto simp: load_state_def Let_def emit_def get_or_def
           split: option.splits file_content.splits iso_field.splits if_splits)

lemma step_keeps_flag_clear:
  assumes "\<not> checks_target c" and "c \<noteq> LoadState" and "\<not> daily_target_reached self"
  shows "\<not> daily_target_reached (fst (perform (self, files) (c, now, h)))"
proof (cases c)
  case GetDailyStats
  with assms(3) show ?thesis by (simp add: get_daily_stats_frame)
next
  case CheckTargetReached
  with assms(1) show ?thesis by simp
next
  case ShouldAllowTrading
  with assms(3) show ?thesis
    by (simp add: should_allow_trading_state midnight_rollover_flag)
next
  case ShouldPauseTrading
  with assms(1) show ?thesis by simp
next
  case (RecordTrade lot_size profit)
  with assms(3) show ?thesis by (simp add: record_trade_fields)
next
  case ResetDailyState
  then show ?thesis by (simp add: reset_daily_state_fields)
next
  case GetProgressReport
  with assms(3) show ?thesis by (simp add: get_progress_report_state get_daily_stats_frame)
next
  case GetCompactProgress
  with assms(3) show ?thesis by (simp add: get_compact_progress_state get_daily_stats_frame)
next
  case (SaveState io)
  with assms(3) show ?thesis by (simp add: save_state_frame)
next
  case LoadState
  with assms(2) show ?thesis by simp
next
  case (Update io)
  with assms(3) show ?thesis
    by (simp add: update_def Let_def save_state_frame reset_daily_state_fields)
next
  case (TrackTradeOpen ticket direction lot_size)
  with assms(3) show ?thesis by (simp add: track_trade_open_def emit_frame)
next
  case (TrackTradeClose ticket profit direction lot_size)
  with assms(3) show ?thesis by (simp add: track_trade_close_def emit_frame record_trade_fields)
qed

lemma allowed_after_record_trade:
  assumes "\<not> daily_target_reached self"
    and "\<not> (weekday now = 4 \<and> friday_close_hour self \<le> hour now)"
    and "enable_pacing self \<and> \<not> last_reset_date self < date_of now
           \<longrightarrow> fst (required_interval (record_trade self lot_size profit t) now h)
               \<le> total_seconds now t"
  shows "fst (should_allow_trading (record_trade self lot_size profit t) now h)
           = (True, TradingAllowed)"
proof (cases "last_reset_date self < date_of now")
  case True
  then have "midnight_rollover (record_trade self lot_size profit t) now
               = reset_daily_state (record_trade self lot_size profit t) now"
    by (simp add: midnight_rollover_def record_trade_fields)
  with assms(2) show ?thesis
    by (simp add: should_allow_trading_cases Let_def reset_daily_state_fields
          record_trade_settings)
next
  case False
  then have "midnight_rollover (record_trade self lot_size profit t) now
               = record_trade self lot_size profit t"
    by (simp add: midnight_rollover_def record_trade_fields)
  with assms False show ?thesis
    by (auto simp: should_allow_trading_cases Let_def record_trade_fields record_trade_settings)
qed

text \<open>
  Claim C10, as stated, has the flag set to true only inside \<^verbatim>\<open>check_target_reached\<close> and
  its callers. \<^verbatim>\<open>load_state\<close> assigns the flag from the snapshot: loading, on Monday, the
  file saved by Monday's manager after the target was reached sets the flag of a fresh
  manager.
\<close>

theorem load_state_sets_flag_counterexample:
  "\<not> daily_target_reached default_manager
   \<and> \<not> checks_target LoadState
   \<and> daily_target_reached
       (fst (perform (default_manager, reached_files) (LoadState, monday_noon, no_deals)))"
  by code_simp

text \<open>
  Claim C10, amended: a call that is neither \<^verbatim>\<open>check_target_reached\<close>, nor
  \<^verbatim>\<open>should_pause_trading\<close>, nor \<^verbatim>\<open>load_state\<close> leaves a clear flag clear, and
  \<^verbatim>\<open>load_state\<close> sets it only from a snapshot of today's date that holds a true flag. In
  particular \<^verbatim>\<open>record_trade\<close> and \<^verbatim>\<open>should_allow_trading\<close> never set it: after a
  \<^verbatim>\<open>record_trade\<close> that lifts the gross profit to the target or above,
  \<^verbatim>\<open>should_allow_trading\<close> still allows when it is not past the Friday close and pacing
  does not deny, and leaves the flag clear.
\<close>

theorem target_flag_setters:
  "(\<not> checks_target c \<and> c \<noteq> LoadState \<and> \<not> daily_target_reached self
      \<longrightarrow> \<not> daily_target_reached (fst (perform (self, files) (c, now, h))))
   \<and> (\<not> daily_target_reached self \<and> daily_target_reached (load_state self now files)
      \<longrightarrow> (\<exists>snap. files (state_file self) = Some (Json snap)
                  \<and> date_field snap = Iso (date_of now)
                  \<and> target_reached_field snap = Some True))
   \<and> (\<not> daily_target_reached self
        \<and> daily_target_gross self \<le> gross_profit_today (record_trade self lot_size profit t)
        \<and> \<not> (weekday now = 4 \<and> friday_close_hour self \<le> hour now)
        \<and> (enable_pacing self \<and> \<not> last_reset_date self < date_of now
             \<longrightarrow> fst (required_interval (record_trade self lot_size profit t) now h)
                 \<le> total_seconds now t)
      \<longrightarrow> \<not> daily_target_reached (record_trade self lot_size profit t)
        \<and> fst (should_allow_trading (record_trade self lot_size profit t) now h)
            = (True, TradingAllowed)
        \<and> \<not> daily_target_reached
              (snd (should_allow_trading (record_trade self lot_size profit t) now h)))"
proof -
  have a: "\<not> checks_target c \<and> c \<noteq> LoadState \<and> \<not> daily_target_reached self
      \<longrightarrow> \<not> daily_target_reached (fst (perform (self, files) (c, now, h)))"
    using step_keeps_flag_clear [of c self files now h] by simp
  have b: "\<not> daily_target_reached self \<and> daily_target_reached (load_state self now files)
      \<longrightarrow> (\<exists>snap. files (state_file self) = Some (Json snap)
                  \<and> date_field snap = Iso (date_of now)
                  \<and> target_reached_field snap = Some True)"
    using load_state_flag [of self now files] by simp
  have c: "\<not> daily_target_reached self
        \<and> daily_target_gross self \<le> gross_profit_today (record_trade self lot_size profit t)
        \<and> \<not> (weekday now = 4 \<and> friday_close_hour self \<le> hour now)
        \<and> (enable_pacing self \<and> \<not> last_reset_date self < date_of now
             \<longrightarrow> fst (required_interval (record_trade self lot_size profit t) now h)
                 \<le> total_seconds now t)
      \<longrightarrow> \<not> daily_target_reached (record_trade self lot_size profit t)
        \<and> fst (should_allow_trading (record_trade self lot_size profit t) now h)
            = (True, TradingAllowed)
        \<and> \<not> daily_target_reached
              (snd (should_allow_trading (record_trade self lot_size profit t) now h))"
  proof (intro impI, elim conjE)
    assume f: "\<not> daily_target_reached self"
      and fr: "\<not> (weekday now = 4 \<and> friday_close_hour self \<le> hour now)"
      and p: "enable_pacing self \<and> \<not> last_reset_date self < date_of now
             \<longrightarrow> fst (required_interval (record_trade self lot_size profit t) now h)
                 \<le> total_seconds now t"
    have f1: "\<not> daily_target_reached (record_trade self lot_size profit t)"
      using f by (simp add: record_trade_fields)
    have f2: "fst (should_allow_trading (record_trade self lot_size profit t) now h)
            = (True, TradingAllowed)"
      using allowed_after_record_trade [OF f fr p] .
    have f3: "\<not> daily_target_reached
              (snd (should_allow_trading (record_trade self lot_size profit t) now h))"
      using f1 by (simp add: should_allow_trading_state midnight_rollover_flag)
    show "\<not> daily_target_reached (record_trade self lot_size profit t)
        \<and> fst (should_allow_trading (record_trade self lot_size profit t) now h)
            = (True, TradingAllowed)
        \<and> \<not> daily_target_reached
              (snd (should_allow_trading (record_trade self lot_size profit t) now h))"
      using f1 f2 f3 by (intro conjI)
  qed
  show ?thesis
    by (intro conjI a b c)
qed

text \<open>
  Claim C10, amended, at concrete inputs: the default manager records a trade of profit 200
  against the target of 175 on Monday noon; the flag stays clear and the gating call five
  minutes later allows, while \<^verbatim>\<open>check_target_reached\<close> at that moment returns true.
\<close>

theorem target_flag_setters_witness:
  "\<not> checks_target (RecordTrade (7 / 10) 200)
   \<and> \<not> daily_target_reached default_manager
   \<and> daily_target_gross default_manager
       \<le> gross_profit_today (record_trade default_manager (7 / 10) 200 monday_noon)
   \<and> \<not> daily_target_reached
         (fst (perform (default_manager, Map.empty)
                       (RecordTrade (7 / 10) 200, monday_noon, no_deals)))
   \<and> fst (should_allow_trading (record_trade default_manager (7 / 10) 200 monday_noon)
                                (at_time 738886 12 5 0) no_deals)
       = (True, TradingAllowed)
   \<and> fst (fst (check_target_reached (record_trade default_manager (7 / 10) 200 monday_noon)
                                     (at_time 738886 12 5 0) one_deal))"
proof -
  have e1: "\<not> checks_target (RecordTrade (7 / 10) 200)"
           "RecordTrade (7 / 10) 200 \<noteq> LoadState"
    by simp_all
  have e2: "\<not> daily_target_reached default_manager"
    by code_simp
  have e3: "daily_target_gross default_manager
              \<le> gross_profit_today (record_trade default_manager (7 / 10) 200 monday_noon)"
    by code_simp
  have e4: "\<not> (weekday (at_time 738886 12 5 0) = 4
                \<and> friday_close_hour default_manager \<le> hour (at_time 738886 12 5 0))"
    by code_simp
  have e5: "fst (required_interval (record_trade default_manager (7 / 10) 200 monday_noon)
                                   (at_time 738886 12 5 0) no_deals)
              \<le> total_seconds (at_time 738886 12 5 0) monday_noon"
    by code_simp
  have e6: "fst (fst (check_target_reached (record_trade default_manager (7 / 10) 200 monday_noon)
                                          (at_time 738886 12 5 0) one_deal))"
    by code_simp
  have a: "\<not> daily_target_reached
             (fst (perform (default_manager, Map.empty)
                           (RecordTrade (7 / 10) 200, monday_noon, no_deals)))"
    using target_flag_setters
            [where c = "RecordTrade (7 / 10) 200" and self = default_manager
               and files = Map.empty and now = monday_noon and h = no_deals]
          e1 e2
    by blast
  have b: "fst (should_allow_trading (record_trade default_manager (7 / 10) 200 monday_noon)
                                     (at_time 738886 12 5 0) no_deals)
             = (True, TradingAllowed)"
    using target_flag_setters
            [where self = default_manager and lot_size = "7 / 10" and profit = 200
               and t = monday_noon and now = "at_time 738886 12 5 0" and h = no_deals]
          e2 e3 e4 e5
    by blast
  show ?thesis
    by (intro conjI e1(1) e2 e3 a b e6)
qed

end
